theory Spec2Isabelle
  imports Main
begin

section \<open>JavaScript strings and values\<close>

text \<open>
  A JavaScript string is a sequence of UTF-16 code units and \<open>.length\<close> counts code
  units. This development covers the strings whose code units lie in U+0000..U+00FF:
  one \<^typ>\<open>char\<close> is one code unit, and \<^term>\<open>length\<close> is \<open>.length\<close>. On that range
  \<open>trim\<close> and \<open>toLowerCase\<close> are closed and are given below exactly as ECMAScript
  defines them.
\<close>

text \<open>
  The code units that \<open>String.prototype.trim\<close> strips (WhiteSpace and LineTerminator
  of ECMAScript) below U+0100: TAB, LF, VT, FF, CR, SPACE and NO-BREAK SPACE.
\<close>

definition isWhiteSpace :: "char \<Rightarrow> bool" where
  "isWhiteSpace c =
     (c = CHR 0x09 \<or> c = CHR 0x0A \<or> c = CHR 0x0B \<or> c = CHR 0x0C \<or> c = CHR 0x0D
      \<or> c = CHR 0x20 \<or> c = CHR 0xA0)"

definition trim :: "string \<Rightarrow> string" where
  "trim s = rev (dropWhile isWhiteSpace (rev (dropWhile isWhiteSpace s)))"

text \<open>
  Lower-casing of one code unit below U+0100: A..Z and the Latin-1 capitals
  U+00C0..U+00DE (the multiplication sign U+00D7 apart) move up by 32; every other
  code unit stays.
\<close>

definition lowerChar :: "char \<Rightarrow> char" where
  "lowerChar c =
     (let n = (of_char c :: nat)
      in if (65 \<le> n \<and> n \<le> 90) \<or> (192 \<le> n \<and> n \<le> 222 \<and> n \<noteq> 215)
         then char_of (n + 32) else c)"

definition toLowerCase :: "string \<Rightarrow> string" where
  "toLowerCase s = map lowerChar s"

text \<open>
  What a template literal does with a non-negative integer such as \<open>title.length\<close>:
  its decimal digits.
\<close>

definition digitChar :: "nat \<Rightarrow> char" where
  "digitChar d = char_of (48 + d)"

fun toString :: "nat \<Rightarrow> string" where
  "toString n = (if n < 10 then [digitChar n] else toString (n div 10) @ [digitChar (n mod 10)])"

declare toString.simps [simp del]

text \<open>
  The arguments of \<open>validateCardProps\<close> are declared \<open>string\<close>, and the function guards
  them with \<open>!title\<close> and \<open>!description\<close>: an argument is a string, or it is absent
  (\<open>undefined\<close> or \<open>null\<close>). Reading a property of an absent value throws a TypeError.
\<close>

datatype jsarg = Undefined | Null | Str string

datatype error = TypeError

fun falsy :: "jsarg \<Rightarrow> bool" where
  "falsy Undefined = True"
| "falsy Null = True"
| "falsy (Str s) = (s = [])"

fun js_trim :: "jsarg \<Rightarrow> error + string" where
  "js_trim (Str s) = Inr (trim s)"
| "js_trim _ = Inl TypeError"

fun js_length :: "jsarg \<Rightarrow> error + nat" where
  "js_length (Str s) = Inr (length s)"
| "js_length _ = Inl TypeError"

text \<open>Sequencing of computations that may throw.\<close>

definition bindE :: "error + 'a \<Rightarrow> ('a \<Rightarrow> error + 'b) \<Rightarrow> error + 'b" where
  "bindE m f = (case m of Inl e \<Rightarrow> Inl e | Inr x \<Rightarrow> f x)"

text \<open>\<open>a || b\<close> on booleans: \<open>b\<close> is evaluated only when \<open>a\<close> is false.\<close>

definition js_or :: "bool \<Rightarrow> (error + bool) \<Rightarrow> error + bool" where
  "js_or a b = (if a then Inr True else b)"

section \<open>The validator\<close>

record CardValidation =
  isValid :: bool
  message :: string

text \<open>
  \<open>validateCardProps\<close> of \<open>Card.tsx\<close>; the copy in the demo application's \<open>Card\<close>
  module has the same text. Each \<open>if\<close> of the source is one step below, in the
  source's order.
\<close>

definition validateCardProps :: "jsarg \<Rightarrow> jsarg \<Rightarrow> error + CardValidation" where
  "validateCardProps title description =
     bindE (js_or (falsy title) (bindE (js_trim title) (\<lambda>s. Inr (length s = 0)))) (\<lambda>c1.
     if c1 then
       Inr \<lparr>isValid = False,
            message = ''Card title is required and cannot be empty. Please provide a meaningful title to describe your content.''\<rparr>
     else
     bindE (js_length title) (\<lambda>n.
     if n > 100 then
       Inr \<lparr>isValid = False,
            message = ''Card title is too long ('' @ toString n @ ''/100 characters). Please use a concise title that summarizes your content effectively.''\<rparr>
     else
     bindE (js_or (falsy description) (bindE (js_trim description) (\<lambda>s. Inr (length s = 0)))) (\<lambda>c3.
     if c3 then
       Inr \<lparr>isValid = False,
            message = ''Card description is required and cannot be empty. Please provide a clear description to give users context about your content.''\<rparr>
     else
     bindE (js_length description) (\<lambda>m.
     if m > 500 then
       Inr \<lparr>isValid = False,
            message = ''Card description is too long ('' @ toString m @ ''/500 characters). Please provide a concise description that highlights the key information.''\<rparr>
     else
     bindE (js_trim title) (\<lambda>tt.
     bindE (js_trim description) (\<lambda>dt.
     if toLowerCase tt = toLowerCase dt then
       Inr \<lparr>isValid = False,
            message = ''Card title and description should be different. The description should provide additional context beyond the title.''\<rparr>
     else
       Inr \<lparr>isValid = True,
            message = ''Card content is valid and provides meaningful information to users.''\<rparr>))))))"

section \<open>The rules of the specification\<close>

text \<open>
  The six verdict kinds and the rule list of the specification, written from its
  words, to be compared with \<^const>\<open>validateCardProps\<close>.
\<close>

datatype VerdictKind =
  MissingTitle | TitleTooLong | MissingDescription | DescriptionTooLong
  | DuplicateContent | Valid

fun absent :: "jsarg \<Rightarrow> bool" where
  "absent (Str s) = False"
| "absent _ = True"

fun text_of :: "jsarg \<Rightarrow> string" where
  "text_of (Str s) = s"
| "text_of _ = []"

definition spec_kind :: "jsarg \<Rightarrow> jsarg \<Rightarrow> VerdictKind" where
  "spec_kind title description =
     (if absent title \<or> trim (text_of title) = [] then MissingTitle
      else if length (text_of title) > 100 then TitleTooLong
      else if absent description \<or> trim (text_of description) = [] then MissingDescription
      else if length (text_of description) > 500 then DescriptionTooLong
      else if toLowerCase (trim (text_of title)) = toLowerCase (trim (text_of description))
      then DuplicateContent
      else Valid)"

text \<open>
  The canonical message of a kind; \<open>tlen\<close> and \<open>dlen\<close> are the lengths that the two
  too-long messages interpolate.
\<close>

fun spec_message :: "VerdictKind \<Rightarrow> nat \<Rightarrow> nat \<Rightarrow> string" where
  "spec_message MissingTitle tlen dlen =
     ''Card title is required and cannot be empty. Please provide a meaningful title to describe your content.''"
| "spec_message TitleTooLong tlen dlen =
     ''Card title is too long ('' @ toString tlen @ ''/100 characters). Please use a concise title that summarizes your content effectively.''"
| "spec_message MissingDescription tlen dlen =
     ''Card description is required and cannot be empty. Please provide a clear description to give users context about your content.''"
| "spec_message DescriptionTooLong tlen dlen =
     ''Card description is too long ('' @ toString dlen @ ''/500 characters). Please provide a concise description that highlights the key information.''"
| "spec_message DuplicateContent tlen dlen =
     ''Card title and description should be different. The description should provide additional context beyond the title.''"
| "spec_message Valid tlen dlen =
     ''Card content is valid and provides meaningful information to users.''"

definition spec_verdict :: "VerdictKind \<Rightarrow> nat \<Rightarrow> nat \<Rightarrow> CardValidation" where
  "spec_verdict k tlen dlen = \<lparr>isValid = (k = Valid), message = spec_message k tlen dlen\<rparr>"

definition spec_validate :: "jsarg \<Rightarrow> jsarg \<Rightarrow> CardValidation" where
  "spec_validate title description =
     spec_verdict (spec_kind title description)
       (length (text_of title)) (length (text_of description))"

section \<open>The card component\<close>

text \<open>
  The variant keys of \<open>cardVariants\<close>. An unset key is \<open>None\<close>.
\<close>

datatype cardVariant = VariantDefault | Featured | Interactive | Compact | Status

datatype cardSize = Sm | SizeDefault | Lg

datatype cardStatus = StatusNone | Success | Warning | Error | Info

text \<open>
  The variant properties (\<open>VariantProps\<close> of \<open>cardVariants\<close>), then the argument object of
  \<open>cardVariants\<close> (the variant keys and \<open>className\<close>), then \<open>CardProps\<close>, which
  extends them. The observer \<open>onValidationChange\<close> is a function value, known here by
  its identity. The \<open>ref\<close> and the remaining HTML attributes, which the component hands
  to its \<open>div\<close> untouched, are left out.
\<close>

type_synonym observer = nat

record VariantProps =
  variant :: "cardVariant option"
  size' :: "cardSize option"
  status :: "cardStatus option"

record ClassProps = VariantProps +
  className :: "string option"

record CardProps = ClassProps +
  title :: jsarg
  description :: jsarg
  showValidation :: "bool option"
  onValidationChange :: "observer option"

text \<open>A default parameter value: used when the property is not set.\<close>

definition orDefault :: "'a \<Rightarrow> 'a option \<Rightarrow> 'a" where
  "orDefault d x = (case x of None \<Rightarrow> d | Some v \<Rightarrow> v)"

text \<open>
  What \<open>Card\<close> returns: the outer \<open>div\<close> with its role, ARIA attributes and class
  string, the text of its \<open>CardTitle\<close> (\<open>heading\<close>; the icon of the error heading is
  left out) and the text of its content paragraph (\<open>body\<close>).
\<close>

record element =
  role :: string
  ariaLive :: "string option"
  ariaLabelledby :: "string option"
  ariaDescribedby :: "string option"
  classes :: string
  heading :: jsarg
  body :: jsarg

text \<open>
  One call of the component function: the element it returns, and the effect it hands
  to \<open>React.useEffect\<close>, that is \<open>onValidationChange?.(validation)\<close> with the
  dependency array \<open>[validation, onValidationChange]\<close>.
\<close>

record 'e rendering =
  returned :: 'e
  depValidation :: CardValidation
  depObserver :: "observer option"

text \<open>
  \<open>Card\<close> of \<open>Card.tsx\<close>. The class merger \<open>cn\<close> (imported from \<open>@/lib/utils\<close>) and
  the style lookup \<open>cardVariants\<close> (built by \<open>cva\<close> from the class table) are
  parameters: what follows holds for every such pair of functions. \<open>showValidation\<close>
  defaults to \<open>false\<close>.
\<close>

definition Card ::
  "(string list \<Rightarrow> string) \<Rightarrow> (ClassProps \<Rightarrow> string) \<Rightarrow> CardProps
     \<Rightarrow> error + element rendering" where
  "Card cn cardVariants props =
     bindE (validateCardProps (title props) (description props)) (\<lambda>validation.
     if \<not> isValid validation \<and> orDefault False (showValidation props) then
       Inr \<lparr>returned =
              \<lparr>role = ''alert'', ariaLive = Some ''polite'',
               ariaLabelledby = None, ariaDescribedby = None,
               classes = cn [cardVariants \<lparr>variant = Some Status, size' = size' props,
                                          status = Some Error, className = className props\<rparr>,
                             ''animate-in slide-in-from-left-1 duration-200''],
               heading = Str ''Invalid Card Configuration'',
               body = Str (message validation)\<rparr>,
            depValidation = validation,
            depObserver = onValidationChange props\<rparr>
     else
       Inr \<lparr>returned =
              \<lparr>role = ''article'', ariaLive = None,
               ariaLabelledby = Some ''card-title'', ariaDescribedby = Some ''card-description'',
               classes = cn [cardVariants \<lparr>variant = variant props, size' = size' props,
                                          status = status props, className = className props\<rparr>],
               heading = title props,
               body = description props\<rparr>,
            depValidation = validation,
            depObserver = onValidationChange props\<rparr>)"

text \<open>
  The render mode of the specification, read off the returned element: the alert
  layout is the validation-error view, the article layout the normal one.
\<close>

datatype RenderMode = ValidationError | Normal

definition renderMode :: "'a element_scheme \<Rightarrow> RenderMode" where
  "renderMode e = (if role e = ''alert'' then ValidationError else Normal)"

section \<open>The card of the demo application\<close>

text \<open>
  The demo application has its own \<open>Card\<close> module (plain JavaScript, inline styles).
  A style object maps property names to values; a value is a string, or a nested
  object under a key such as \<open>:hover\<close>. Spreading \<open>{...a, ...b}\<close> is \<open>a ++ b\<close>.
\<close>

datatype cssval = CssStr string | CssObj "(string \<times> string) list"

type_synonym styleObj = "string \<rightharpoonup> cssval"

definition cardBaseStyles :: styleObj where
  "cardBaseStyles =
     [''borderRadius'' \<mapsto> CssStr ''0.5rem'',
      ''border'' \<mapsto> CssStr ''1px solid #e5e7eb'',
      ''backgroundColor'' \<mapsto> CssStr ''white'',
      ''color'' \<mapsto> CssStr ''#1f2937'',
      ''boxShadow'' \<mapsto> CssStr ''0 1px 3px 0 rgb(0 0 0 / 0.1)'',
      ''transition'' \<mapsto> CssStr ''all 0.2s'']"

fun variantStyles :: "cardVariant \<Rightarrow> styleObj" where
  "variantStyles VariantDefault =
     cardBaseStyles ++
     ['':hover'' \<mapsto> CssObj [(''boxShadow'',
        ''0 4px 6px -1px rgb(0 0 0 / 0.1), 0 2px 4px -2px rgb(0 0 0 / 0.1)'')]]"
| "variantStyles Featured =
     cardBaseStyles ++
     [''border'' \<mapsto> CssStr ''1px solid rgb(59 130 246 / 0.2)'',
      ''background'' \<mapsto> CssStr
        ''linear-gradient(to bottom right, rgb(59 130 246 / 0.05), rgb(59 130 246 / 0.1))'',
      ''boxShadow'' \<mapsto> CssStr
        ''0 4px 6px -1px rgb(0 0 0 / 0.1), 0 2px 4px -2px rgb(0 0 0 / 0.1)'']"
| "variantStyles Interactive =
     cardBaseStyles ++
     [''cursor'' \<mapsto> CssStr ''pointer'',
      '':hover'' \<mapsto> CssObj [(''borderColor'', ''rgb(59 130 246 / 0.4)''),
        (''boxShadow'', ''0 4px 6px -1px rgb(0 0 0 / 0.1), 0 2px 4px -2px rgb(0 0 0 / 0.1)'')],
      '':active'' \<mapsto> CssObj [(''transform'', ''scale(0.98)'')]]"
| "variantStyles Compact =
     cardBaseStyles ++
     [''padding'' \<mapsto> CssStr ''0.75rem'',
      ''boxShadow'' \<mapsto> CssStr ''0 1px 2px 0 rgb(0 0 0 / 0.05)'']"
| "variantStyles Status =
     cardBaseStyles ++ [''borderLeftWidth'' \<mapsto> CssStr ''4px'']"

fun sizeStyles :: "cardSize \<Rightarrow> styleObj" where
  "sizeStyles Sm = [''padding'' \<mapsto> CssStr ''1rem'', ''gap'' \<mapsto> CssStr ''0.5rem'']"
| "sizeStyles SizeDefault = [''padding'' \<mapsto> CssStr ''1.5rem'', ''gap'' \<mapsto> CssStr ''1rem'']"
| "sizeStyles Lg = [''padding'' \<mapsto> CssStr ''2rem'', ''gap'' \<mapsto> CssStr ''1.5rem'']"

fun statusStyles :: "cardStatus \<Rightarrow> styleObj" where
  "statusStyles Success =
     [''borderLeftColor'' \<mapsto> CssStr ''#10b981'',
      ''backgroundColor'' \<mapsto> CssStr ''rgb(34 197 94 / 0.05)'']"
| "statusStyles Warning =
     [''borderLeftColor'' \<mapsto> CssStr ''#f59e0b'',
      ''backgroundColor'' \<mapsto> CssStr ''rgb(245 158 11 / 0.05)'']"
| "statusStyles Error =
     [''borderLeftColor'' \<mapsto> CssStr ''#ef4444'',
      ''backgroundColor'' \<mapsto> CssStr ''rgb(239 68 68 / 0.05)'']"
| "statusStyles Info =
     [''borderLeftColor'' \<mapsto> CssStr ''#3b82f6'',
      ''backgroundColor'' \<mapsto> CssStr ''rgb(59 130 246 / 0.05)'']"
| "statusStyles StatusNone = Map.empty"

text \<open>The module's own \<open>cn\<close>: \<open>classes.filter(Boolean).join(' ')\<close>.\<close>

fun joinSpace :: "string list \<Rightarrow> string" where
  "joinSpace [] = []"
| "joinSpace [x] = x"
| "joinSpace (x # y # ys) = x @ '' '' @ joinSpace (y # ys)"

definition cnJsx :: "string list \<Rightarrow> string" where
  "cnJsx cs = joinSpace (filter (\<lambda>c. c \<noteq> []) cs)"

text \<open>
  Its properties add \<open>style\<close> and \<open>children\<close> to those of \<open>CardProps\<close>; \<open>children\<close>
  is \<open>None\<close> when absent or falsy. Its element adds the inline style and, when custom
  children replace the header and the content, those children (\<open>heading\<close> and \<open>body\<close>
  are then \<open>Undefined\<close>: neither is rendered).
\<close>

record 'n JsxProps = CardProps +
  style :: "styleObj option"
  children :: "'n option"

record 'n jsxElement = element +
  styleAttr :: styleObj
  custom :: "'n option"

definition CardJsx :: "'n JsxProps \<Rightarrow> error + 'n jsxElement rendering" where
  "CardJsx props =
     (let className = orDefault [] (className props);
          variant = orDefault VariantDefault (variant props);
          size = orDefault SizeDefault (size' props);
          status = orDefault StatusNone (status props);
          showValidation = orDefault False (showValidation props);
          style = orDefault Map.empty (style props)
      in
      bindE (validateCardProps (title props) (description props)) (\<lambda>validation.
      if \<not> isValid validation \<and> showValidation then
        Inr \<lparr>returned =
               \<lparr>role = ''alert'', ariaLive = Some ''polite'',
                ariaLabelledby = None, ariaDescribedby = None,
                classes = cnJsx [''card card-error'', className],
                heading = Str ''Invalid Card Configuration'',
                body = Str (message validation),
                styleAttr = variantStyles Status ++ sizeStyles size ++ statusStyles Error ++ style,
                custom = None\<rparr>,
             depValidation = validation,
             depObserver = onValidationChange props\<rparr>
      else if children props \<noteq> None then
        Inr \<lparr>returned =
               \<lparr>role = ''article'', ariaLive = None,
                ariaLabelledby = None, ariaDescribedby = None,
                classes = cnJsx [''card'', className],
                heading = Undefined,
                body = Undefined,
                styleAttr = variantStyles variant ++ sizeStyles size
                  ++ (if variant = Status then statusStyles status else Map.empty) ++ style,
                custom = children props\<rparr>,
             depValidation = validation,
             depObserver = onValidationChange props\<rparr>
      else
        Inr \<lparr>returned =
               \<lparr>role = ''article'', ariaLive = None,
                ariaLabelledby = Some ''card-title'', ariaDescribedby = Some ''card-description'',
                classes = cnJsx [''card'', className],
                heading = title props,
                body = description props,
                styleAttr = variantStyles variant ++ sizeStyles size
                  ++ (if variant = Status then statusStyles status else Map.empty)
                  ++ [''display'' \<mapsto> CssStr ''flex'', ''flexDirection'' \<mapsto> CssStr ''column'']
                  ++ style,
                custom = None\<rparr>,
             depValidation = validation,
             depObserver = onValidationChange props\<rparr>))"

section \<open>Effects and render passes\<close>

text \<open>
  What an observer of a live card instance can see, in order: the element of a render
  pass, and each call of an observer with the verdict it is given.
\<close>

datatype 'e event = Rendered 'e | Notified observer CardValidation

text \<open>The effect of both components: \<open>onValidationChange?.(validation)\<close>.\<close>

definition effectBody :: "observer option \<Rightarrow> CardValidation \<Rightarrow> 'e event list" where
  "effectBody ob v = (case ob of None \<Rightarrow> [] | Some f \<Rightarrow> [Notified f v])"

text \<open>
  The contract of \<open>React.useEffect\<close> as the components rely on it. A live instance
  keeps the dependency array of its last pass; after the component function has returned,
  the effect runs if this is the first pass or if some dependency is not the same value
  (\<open>Object.is\<close>) as before. The first dependency is an object, the verdict that
  \<open>validateCardProps\<close> has just built, so it is compared by identity: every call builds
  a new object, at the next free address. The second is the observer.
\<close>

record liveCard =
  nextAddr :: nat
  lastDeps :: "(nat \<times> observer option) option"

definition mounting :: "nat \<Rightarrow> liveCard" where
  "mounting n = \<lparr>nextAddr = n, lastDeps = None\<rparr>"

definition depsChanged :: "(nat \<times> observer option) option \<Rightarrow> nat \<times> observer option \<Rightarrow> bool" where
  "depsChanged old new =
     (case old of None \<Rightarrow> True | Some d \<Rightarrow> fst d \<noteq> fst new \<or> snd d \<noteq> snd new)"

definition commit :: "liveCard \<Rightarrow> 'e rendering \<Rightarrow> liveCard \<times> 'e event list" where
  "commit inst r =
     (let a = nextAddr inst;
          deps = (a, depObserver r)
      in (\<lparr>nextAddr = Suc a, lastDeps = Some deps\<rparr>,
          Rendered (returned r) #
            (if depsChanged (lastDeps inst) deps
             then effectBody (depObserver r) (depValidation r) else [])))"

definition renderPass ::
  "('p \<Rightarrow> error + 'e rendering) \<Rightarrow> liveCard \<Rightarrow> 'p \<Rightarrow> error + liveCard \<times> 'e event list" where
  "renderPass component inst props = bindE (component props) (\<lambda>r. Inr (commit inst r))"

text \<open>A life of an instance: one pass per properties in the list, the events in order.\<close>

fun renderAll ::
  "('p \<Rightarrow> error + 'e rendering) \<Rightarrow> liveCard \<Rightarrow> 'p list \<Rightarrow> error + liveCard \<times> 'e event list" where
  "renderAll component inst [] = Inr (inst, [])"
| "renderAll component inst (p # ps) =
     bindE (renderPass component inst p) (\<lambda>(inst', es).
     bindE (renderAll component inst' ps) (\<lambda>(inst'', es'). Inr (inst'', es @ es')))"

text \<open>
  The address kept in the dependency array of the last pass has been handed out already,
  so the verdict object of the next pass is a different object.
\<close>

definition settled :: "liveCard \<Rightarrow> bool" where
  "settled inst = (case lastDeps inst of None \<Rightarrow> True | Some d \<Rightarrow> fst d < nextAddr inst)"

section \<open>Facts about strings\<close>

lemma trim_Nil [simp]: "trim [] = []"
  by (simp add: trim_def)

lemma dropWhile_all_iff: "(\<forall>x \<in> set (dropWhile P xs). P x) \<longleftrightarrow> (\<forall>x \<in> set xs. P x)"
  by (induction xs) auto

lemma trim_eq_Nil_iff: "trim s = [] \<longleftrightarrow> (\<forall>c \<in> set s. isWhiteSpace c)"
  by (simp add: trim_def dropWhile_all_iff)

section \<open>The validator against the rules\<close>

lemma validateCardProps_spec:
  "validateCardProps t d = Inr (spec_validate t d)"
  by (cases t; cases d)
     (simp_all add: validateCardProps_def spec_validate_def spec_kind_def spec_verdict_def
        bindE_def js_or_def)


lemma spec_message_inj: "spec_message k a b = spec_message k' a' b' \<Longrightarrow> k = k'"
  by (cases k; cases k'; simp)

lemma spec_verdict_inj: "spec_verdict k a b = spec_verdict k' a' b' \<Longrightarrow> k = k'"
  by (auto simp: spec_verdict_def dest: spec_message_inj)

lemma validate_eq_kind:
  "validateCardProps t d = Inr (spec_verdict k a b) \<longleftrightarrow>
     spec_kind t d = k \<and> spec_message k a b = spec_message k (length (text_of t)) (length (text_of d))"
proof
  assume "validateCardProps t d = Inr (spec_verdict k a b)"
  then have e: "spec_verdict (spec_kind t d) (length (text_of t)) (length (text_of d))
                = spec_verdict k a b"
    by (simp add: validateCardProps_spec spec_validate_def)
  then have "spec_kind t d = k"
    by (rule spec_verdict_inj)
  with e show "spec_kind t d = k
      \<and> spec_message k a b = spec_message k (length (text_of t)) (length (text_of d))"
    by (simp add: spec_verdict_def)
next
  assume "spec_kind t d = k
      \<and> spec_message k a b = spec_message k (length (text_of t)) (length (text_of d))"
  then show "validateCardProps t d = Inr (spec_verdict k a b)"
    by (simp add: validateCardProps_spec spec_validate_def spec_verdict_def)
qed

subsection \<open>Rule order\<close>

text \<open>
  C1. For every title and description, \<open>validateCardProps\<close> returns the verdict of the
  six rules of the specification taken in their order, the first rule that fires
  deciding alone: missing or whitespace-only title, raw title longer than 100, missing or
  whitespace-only description, raw description longer than 500, equal after trimming and
  lower-casing, else valid; the verdict carries the canonical message of that rule. In
  particular an absent, empty or all-whitespace title always gives the missing-title
  verdict.
\<close>

theorem validate_rule_order:
  "validateCardProps t d = Inr (spec_validate t d)
   \<and> ((absent t \<or> (\<forall>c \<in> set (text_of t). isWhiteSpace c)) \<longrightarrow>
        validateCardProps t d =
          Inr \<lparr>isValid = False,
               message = ''Card title is required and cannot be empty. Please provide a meaningful title to describe your content.''\<rparr>)"
proof -
  have eq: "validateCardProps t d = Inr (spec_validate t d)"
    by (rule validateCardProps_spec)
  have "spec_kind t d = MissingTitle"
    if "absent t \<or> (\<forall>c \<in> set (text_of t). isWhiteSpace c)"
    using that by (auto simp: spec_kind_def trim_eq_Nil_iff)
  then show ?thesis
    using eq by (simp add: spec_validate_def spec_verdict_def)
qed

theorem validate_rule_order_witness:
  "(absent (Str ''   '') \<or> (\<forall>c \<in> set (text_of (Str ''   '')). isWhiteSpace c))
   \<and> validateCardProps (Str ''   '') (Str ''Valid description'') =
          Inr \<lparr>isValid = False,
               message = ''Card title is required and cannot be empty. Please provide a meaningful title to describe your content.''\<rparr>"
proof -
  have h: "absent (Str ''   '') \<or> (\<forall>c \<in> set (text_of (Str ''   '')). isWhiteSpace c)"
    by (simp add: isWhiteSpace_def)
  from validate_rule_order [of "Str ''   ''" "Str ''Valid description''"] h
  show ?thesis by blast
qed

subsection \<open>Length thresholds\<close>

lemma trim_replicate: "\<not> isWhiteSpace c \<Longrightarrow> trim (replicate n c) = replicate n c"
  by (cases n) (simp_all add: trim_def replicate_append_same [symmetric] del: replicate_Suc)

lemma length_toLowerCase [simp]: "length (toLowerCase s) = length s"
  by (simp add: toLowerCase_def)

lemma trim_nonempty: "c \<in> set s \<Longrightarrow> \<not> isWhiteSpace c \<Longrightarrow> trim s \<noteq> []"
  by (auto simp: trim_eq_Nil_iff)

lemma not_ws_a: "\<not> isWhiteSpace CHR ''a''"
  by (simp add: isWhiteSpace_def)

lemma spec_kind_title_long:
  "trim s \<noteq> [] \<Longrightarrow> spec_kind (Str s) d = TitleTooLong \<longleftrightarrow> 100 < length s"
  by (simp add: spec_kind_def)

lemma spec_kind_description_long:
  "trim s \<noteq> [] \<Longrightarrow> length s \<le> 100 \<Longrightarrow> trim u \<noteq> [] \<Longrightarrow>
     spec_kind (Str s) (Str u) = DescriptionTooLong \<longleftrightarrow> 500 < length u"
  by (simp add: spec_kind_def)

lemma spec_kind_duplicate:
  "trim s \<noteq> [] \<Longrightarrow> length s \<le> 100 \<Longrightarrow> trim u \<noteq> [] \<Longrightarrow> length u \<le> 500 \<Longrightarrow>
     spec_kind (Str s) (Str u) = DuplicateContent
       \<longleftrightarrow> toLowerCase (trim s) = toLowerCase (trim u)"
  by (simp add: spec_kind_def)

lemma spec_kind_valid:
  "trim s \<noteq> [] \<Longrightarrow> length s \<le> 100 \<Longrightarrow> trim u \<noteq> [] \<Longrightarrow> length u \<le> 500 \<Longrightarrow>
     toLowerCase (trim s) \<noteq> toLowerCase (trim u) \<Longrightarrow> spec_kind (Str s) (Str u) = Valid"
  by (simp add: spec_kind_def)

lemma toString_101: "toString 101 = ''101''"
  by code_simp

lemma toString_501: "toString 501 = ''501''"
  by code_simp

lemma trim_Valid_title: "trim ''Valid title'' = ''Valid title''"
  by code_simp

lemma trim_Valid_description: "trim ''Valid description'' = ''Valid description''"
  by code_simp

lemma validate_title_100:
  "validateCardProps (Str (replicate 100 CHR ''a'')) (Str ''Valid description'') =
     Inr \<lparr>isValid = True,
          message = ''Card content is valid and provides meaningful information to users.''\<rparr>"
proof -
  have "length (toLowerCase (trim (replicate 100 CHR ''a'')))
        \<noteq> length (toLowerCase (trim ''Valid description''))"
    by (simp add: trim_replicate not_ws_a trim_Valid_description)
  then have "toLowerCase (trim (replicate 100 CHR ''a'')) \<noteq> toLowerCase (trim ''Valid description'')"
    by metis
  then have "spec_kind (Str (replicate 100 CHR ''a'')) (Str ''Valid description'') = Valid"
    by (intro spec_kind_valid) (simp_all add: trim_replicate not_ws_a trim_Valid_description)
  then show ?thesis
    by (simp add: validateCardProps_spec spec_validate_def spec_verdict_def)
qed

lemma validate_title_101:
  "validateCardProps (Str (replicate 101 CHR ''a'')) (Str ''Valid description'') =
     Inr \<lparr>isValid = False,
          message = ''Card title is too long (101/100 characters). Please use a concise title that summarizes your content effectively.''\<rparr>"
proof -
  have "spec_kind (Str (replicate 101 CHR ''a'')) (Str ''Valid description'') = TitleTooLong"
    by (simp add: spec_kind_title_long trim_replicate not_ws_a)
  then show ?thesis
    by (simp add: validateCardProps_spec spec_validate_def spec_verdict_def toString_101)
qed

lemma validate_description_500:
  "validateCardProps (Str ''Valid title'') (Str (replicate 500 CHR ''a'')) =
     Inr \<lparr>isValid = True,
          message = ''Card content is valid and provides meaningful information to users.''\<rparr>"
proof -
  have "length (toLowerCase (trim ''Valid title''))
        \<noteq> length (toLowerCase (trim (replicate 500 CHR ''a'')))"
    by (simp add: trim_replicate not_ws_a trim_Valid_title)
  then have "toLowerCase (trim ''Valid title'') \<noteq> toLowerCase (trim (replicate 500 CHR ''a''))"
    by metis
  then have "spec_kind (Str ''Valid title'') (Str (replicate 500 CHR ''a'')) = Valid"
    by (intro spec_kind_valid) (simp_all add: trim_replicate not_ws_a trim_Valid_title)
  then show ?thesis
    by (simp add: validateCardProps_spec spec_validate_def spec_verdict_def)
qed

lemma validate_description_501:
  "validateCardProps (Str ''Valid title'') (Str (replicate 501 CHR ''a'')) =
     Inr \<lparr>isValid = False,
          message = ''Card description is too long (501/500 characters). Please provide a concise description that highlights the key information.''\<rparr>"
proof -
  have "spec_kind (Str ''Valid title'') (Str (replicate 501 CHR ''a'')) = DescriptionTooLong"
    by (simp add: spec_kind_description_long trim_replicate not_ws_a trim_Valid_title)
  then show ?thesis
    by (simp add: validateCardProps_spec spec_validate_def spec_verdict_def toString_501)
qed

text \<open>
  C3. The length checks are strict and read the raw, untrimmed strings. For a title
  that is not empty after trimming, the verdict is the title-too-long one, its message
  carrying the raw length and the limit, exactly when the raw length is at least 101.
  When the title rules pass and the description is not empty after trimming, the verdict
  is the description-too-long one exactly when the raw description length is at least
  501. A title of 100 characters and a description of 500 pass; 101 and 501 give the
  messages with \<open>101/100 characters\<close> and \<open>501/500 characters\<close>.
\<close>

theorem length_thresholds:
  "(trim s \<noteq> [] \<longrightarrow>
      (validateCardProps (Str s) d =
         Inr \<lparr>isValid = False,
              message = ''Card title is too long ('' @ toString (length s) @ ''/100 characters). Please use a concise title that summarizes your content effectively.''\<rparr>
       \<longleftrightarrow> 101 \<le> length s))
   \<and> (trim s \<noteq> [] \<and> length s \<le> 100 \<and> trim u \<noteq> [] \<longrightarrow>
      (validateCardProps (Str s) (Str u) =
         Inr \<lparr>isValid = False,
              message = ''Card description is too long ('' @ toString (length u) @ ''/500 characters). Please provide a concise description that highlights the key information.''\<rparr>
       \<longleftrightarrow> 501 \<le> length u))
   \<and> validateCardProps (Str (replicate 100 CHR ''a'')) (Str ''Valid description'') =
       Inr \<lparr>isValid = True,
            message = ''Card content is valid and provides meaningful information to users.''\<rparr>
   \<and> validateCardProps (Str (replicate 101 CHR ''a'')) (Str ''Valid description'') =
       Inr \<lparr>isValid = False,
            message = ''Card title is too long (101/100 characters). Please use a concise title that summarizes your content effectively.''\<rparr>
   \<and> validateCardProps (Str ''Valid title'') (Str (replicate 500 CHR ''a'')) =
       Inr \<lparr>isValid = True,
            message = ''Card content is valid and provides meaningful information to users.''\<rparr>
   \<and> validateCardProps (Str ''Valid title'') (Str (replicate 501 CHR ''a'')) =
       Inr \<lparr>isValid = False,
            message = ''Card description is too long (501/500 characters). Please provide a concise description that highlights the key information.''\<rparr>"
proof -
  have a: "\<lparr>isValid = False,
              message = ''Card title is too long ('' @ toString (length s) @ ''/100 characters). Please use a concise title that summarizes your content effectively.''\<rparr>
        = spec_verdict TitleTooLong (length s) 0"
    by (simp add: spec_verdict_def)
  have b: "\<lparr>isValid = False,
              message = ''Card description is too long ('' @ toString (length u) @ ''/500 characters). Please provide a concise description that highlights the key information.''\<rparr>
        = spec_verdict DescriptionTooLong 0 (length u)"
    by (simp add: spec_verdict_def)
  have "(trim s \<noteq> [] \<longrightarrow>
          (validateCardProps (Str s) d = Inr (spec_verdict TitleTooLong (length s) 0)
           \<longleftrightarrow> 101 \<le> length s))
      \<and> (trim s \<noteq> [] \<and> length s \<le> 100 \<and> trim u \<noteq> [] \<longrightarrow>
          (validateCardProps (Str s) (Str u) = Inr (spec_verdict DescriptionTooLong 0 (length u))
           \<longleftrightarrow> 501 \<le> length u))"
    unfolding validate_eq_kind
    by (auto simp: spec_kind_title_long spec_kind_description_long)
  then show ?thesis
    unfolding a [symmetric] b [symmetric]
    using validate_title_100 validate_title_101 validate_description_500
      validate_description_501
    by blast
qed

theorem length_thresholds_witness:
  "trim (replicate 101 CHR ''a'') \<noteq> []
   \<and> 101 \<le> length (replicate 101 CHR ''a'')
   \<and> validateCardProps (Str (replicate 101 CHR ''a'')) (Str ''Valid description'') =
         Inr \<lparr>isValid = False,
              message = ''Card title is too long ('' @ toString (length (replicate 101 CHR ''a'')) @ ''/100 characters). Please use a concise title that summarizes your content effectively.''\<rparr>
   \<and> (trim ''Valid title'' \<noteq> [] \<and> length ''Valid title'' \<le> 100
        \<and> trim (replicate 501 CHR ''a'') \<noteq> [])
   \<and> 501 \<le> length (replicate 501 CHR ''a'')
   \<and> validateCardProps (Str ''Valid title'') (Str (replicate 501 CHR ''a'')) =
         Inr \<lparr>isValid = False,
              message = ''Card description is too long ('' @ toString (length (replicate 501 CHR ''a'')) @ ''/500 characters). Please provide a concise description that highlights the key information.''\<rparr>"
proof -
  have h1: "trim (replicate 101 CHR ''a'') \<noteq> []"
    by (simp add: trim_replicate not_ws_a)
  have h2: "trim ''Valid title'' \<noteq> [] \<and> length ''Valid title'' \<le> 100
        \<and> trim (replicate 501 CHR ''a'') \<noteq> []"
    by (simp add: trim_replicate not_ws_a trim_Valid_title)
  have l1: "101 \<le> length (replicate 101 CHR ''a'')" and l2: "501 \<le> length (replicate 501 CHR ''a'')"
    by simp_all
  from length_thresholds [of "replicate 101 CHR ''a''" "Str ''Valid description''"] h1 l1
  have r1: "validateCardProps (Str (replicate 101 CHR ''a'')) (Str ''Valid description'') =
         Inr \<lparr>isValid = False,
              message = ''Card title is too long ('' @ toString (length (replicate 101 CHR ''a'')) @ ''/100 characters). Please use a concise title that summarizes your content effectively.''\<rparr>"
    by blast
  from length_thresholds [of "''Valid title''" _ "replicate 501 CHR ''a''"] h2 l2
  have r2: "validateCardProps (Str ''Valid title'') (Str (replicate 501 CHR ''a'')) =
         Inr \<lparr>isValid = False,
              message = ''Card description is too long ('' @ toString (length (replicate 501 CHR ''a'')) @ ''/500 characters). Please provide a concise description that highlights the key information.''\<rparr>"
    by blast
  from h1 h2 l1 l2 r1 r2 show ?thesis by blast
qed

subsection \<open>The duplicate check\<close>

lemma validate_same_content:
  "validateCardProps (Str ''Same Content'') (Str ''same content'') =
     Inr \<lparr>isValid = False,
          message = ''Card title and description should be different. The description should provide additional context beyond the title.''\<rparr>"
  by code_simp

lemma validate_padded:
  "validateCardProps (Str ''  Valid Title  '') (Str ''  Valid description  '') =
     Inr \<lparr>isValid = True,
          message = ''Card content is valid and provides meaningful information to users.''\<rparr>"
  by code_simp

lemma validate_padded_title:
  "validateCardProps (Str (''  '' @ replicate 99 CHR ''a'')) (Str ''Valid description'') =
     Inr \<lparr>isValid = False,
          message = ''Card title is too long (101/100 characters). Please use a concise title that summarizes your content effectively.''\<rparr>"
proof -
  have "trim (''  '' @ replicate 99 CHR ''a'') \<noteq> []"
    by (rule trim_nonempty [of "CHR ''a''"]) (simp_all add: not_ws_a)
  then have "spec_kind (Str (''  '' @ replicate 99 CHR ''a'')) (Str ''Valid description'') = TitleTooLong"
    by (simp add: spec_kind_title_long)
  then show ?thesis
    by (simp add: validateCardProps_spec spec_validate_def spec_verdict_def toString_101)
qed

text \<open>
  C4. The duplicate check compares the title and the description after trimming and
  lower-casing both: \<open>"Same Content"\<close> against \<open>"same content"\<close> is a duplicate, and
  \<open>"  Valid Title  "\<close> with \<open>"  Valid description  "\<close> is valid. Surrounding
  whitespace and letter case do not matter to the presence and equality checks, but the
  length checks count the whitespace of the raw strings: two spaces before 99 letters
  make a title of 101.
\<close>

theorem duplicate_check:
  "validateCardProps (Str ''Same Content'') (Str ''same content'') =
     Inr \<lparr>isValid = False,
          message = ''Card title and description should be different. The description should provide additional context beyond the title.''\<rparr>
   \<and> validateCardProps (Str ''  Valid Title  '') (Str ''  Valid description  '') =
     Inr \<lparr>isValid = True,
          message = ''Card content is valid and provides meaningful information to users.''\<rparr>
   \<and> validateCardProps (Str (''  '' @ replicate 99 CHR ''a'')) (Str ''Valid description'') =
     Inr \<lparr>isValid = False,
          message = ''Card title is too long (101/100 characters). Please use a concise title that summarizes your content effectively.''\<rparr>
   \<and> (trim s \<noteq> [] \<and> length s \<le> 100 \<and> trim u \<noteq> [] \<and> length u \<le> 500 \<longrightarrow>
        (validateCardProps (Str s) (Str u) =
           Inr \<lparr>isValid = False,
                message = ''Card title and description should be different. The description should provide additional context beyond the title.''\<rparr>
         \<longleftrightarrow> toLowerCase (trim s) = toLowerCase (trim u)))"
proof -
  have d: "\<lparr>isValid = False,
                message = ''Card title and description should be different. The description should provide additional context beyond the title.''\<rparr>
           = spec_verdict DuplicateContent 0 0"
    by (simp add: spec_verdict_def)
  have "validateCardProps (Str s) (Str u) = Inr (spec_verdict DuplicateContent 0 0)
         \<longleftrightarrow> toLowerCase (trim s) = toLowerCase (trim u)"
    if "trim s \<noteq> []" "length s \<le> 100" "trim u \<noteq> []" "length u \<le> 500"
    using that by (simp add: validate_eq_kind spec_kind_duplicate)
  then show ?thesis
    unfolding d [symmetric]
    using validate_same_content validate_padded validate_padded_title by blast
qed

theorem duplicate_check_witness:
  "(trim ''Same Content'' \<noteq> [] \<and> length ''Same Content'' \<le> 100
      \<and> trim ''same content'' \<noteq> [] \<and> length ''same content'' \<le> 500)
   \<and> toLowerCase (trim ''Same Content'') = toLowerCase (trim ''same content'')
   \<and> validateCardProps (Str ''Same Content'') (Str ''same content'') =
           Inr \<lparr>isValid = False,
                message = ''Card title and description should be different. The description should provide additional context beyond the title.''\<rparr>"
proof -
  have h: "trim ''Same Content'' \<noteq> [] \<and> length ''Same Content'' \<le> 100
      \<and> trim ''same content'' \<noteq> [] \<and> length ''same content'' \<le> 500"
    by code_simp
  have e: "toLowerCase (trim ''Same Content'') = toLowerCase (trim ''same content'')"
    by code_simp
  from duplicate_check [of "''Same Content''" "''same content''"] h e
  show ?thesis by blast
qed

subsection \<open>Totality\<close>

lemma absent_as_empty:
  "validateCardProps Undefined d = validateCardProps (Str []) d"
  "validateCardProps Null d = validateCardProps (Str []) d"
  "validateCardProps t Undefined = validateCardProps t (Str [])"
  "validateCardProps t Null = validateCardProps t (Str [])"
  by (simp_all add: validateCardProps_spec spec_validate_def spec_kind_def)

lemma validate_one_kind: "\<exists>!k. \<exists>a b. validateCardProps t d = Inr (spec_verdict k a b)"
proof
  show "\<exists>a b. validateCardProps t d = Inr (spec_verdict (spec_kind t d) a b)"
    unfolding validateCardProps_spec spec_validate_def by blast
next
  fix k assume "\<exists>a b. validateCardProps t d = Inr (spec_verdict k a b)"
  then show "k = spec_kind t d"
    by (auto simp: validate_eq_kind)
qed

text \<open>
  C6. \<open>validateCardProps\<close> never throws: for every title and description, absent
  (\<open>undefined\<close> or \<open>null\<close>) ones included, it returns a verdict, and that verdict is
  the canonical verdict of exactly one of the six kinds. An absent argument gives the
  same result as the empty string.
\<close>

theorem validate_total:
  "validateCardProps t d \<noteq> Inl e
   \<and> (\<exists>!k. \<exists>a b. validateCardProps t d = Inr (spec_verdict k a b))
   \<and> validateCardProps Undefined d = validateCardProps (Str []) d
   \<and> validateCardProps Null d = validateCardProps (Str []) d
   \<and> validateCardProps t Undefined = validateCardProps t (Str [])
   \<and> validateCardProps t Null = validateCardProps t (Str [])"
  using validate_one_kind [of t d] absent_as_empty [of d] absent_as_empty(3,4) [of t]
  by (simp add: validateCardProps_spec)

subsection \<open>Messages and kinds\<close>

text \<open>
  C9. The verdict of every title and description is valid if and only if its message is
  the success message. The messages of two different kinds are never equal, whatever
  lengths the too-long ones carry, so two verdicts with the same message are of the same
  kind, and are the same verdict.
\<close>

theorem message_determines_kind:
  "(\<exists>v. validateCardProps t d = Inr v
        \<and> (isValid v \<longleftrightarrow>
             message v = ''Card content is valid and provides meaningful information to users.''))
   \<and> (validateCardProps t d = Inr v \<and> validateCardProps t' d' = Inr v' \<and> message v = message v'
        \<longrightarrow> spec_kind t d = spec_kind t' d' \<and> v = v')
   \<and> (k \<noteq> k' \<longrightarrow> spec_message k a b \<noteq> spec_message k' a' b')"
proof -
  have v: "spec_message Valid 0 0 = ''Card content is valid and provides meaningful information to users.''"
    by simp
  have "isValid (spec_validate t d) \<longleftrightarrow> message (spec_validate t d) = spec_message Valid 0 0"
  proof
    assume "isValid (spec_validate t d)"
    then have "spec_kind t d = Valid"
      by (simp add: spec_validate_def spec_verdict_def)
    then show "message (spec_validate t d) = spec_message Valid 0 0"
      by (simp add: spec_validate_def spec_verdict_def)
  next
    assume "message (spec_validate t d) = spec_message Valid 0 0"
    then have "spec_kind t d = Valid"
      unfolding spec_validate_def spec_verdict_def
      by (auto dest: spec_message_inj simp del: spec_message.simps)
    then show "isValid (spec_validate t d)"
      by (simp add: spec_validate_def spec_verdict_def)
  qed
  then have 1: "\<exists>v. validateCardProps t d = Inr v
        \<and> (isValid v \<longleftrightarrow>
             message v = ''Card content is valid and provides meaningful information to users.'')"
    unfolding v by (simp add: validateCardProps_spec)
  have 2: "spec_kind t d = spec_kind t' d' \<and> v = v'"
    if "validateCardProps t d = Inr v" "validateCardProps t' d' = Inr v'" "message v = message v'"
  proof -
    from that have vv: "v = spec_validate t d" "v' = spec_validate t' d'"
      by (simp_all add: validateCardProps_spec)
    with that(3) have "spec_kind t d = spec_kind t' d'"
      by (auto simp: spec_validate_def spec_verdict_def dest: spec_message_inj)
    with that(3) vv show ?thesis
      by (simp add: spec_validate_def spec_verdict_def)
  qed
  have 3: "k \<noteq> k' \<longrightarrow> spec_message k a b \<noteq> spec_message k' a' b'"
    using spec_message_inj by blast
  from 1 2 3 show ?thesis by blast
qed

theorem message_determines_kind_witness:
  "validateCardProps (Str ''A'') (Str ''b'') =
     Inr \<lparr>isValid = True,
          message = ''Card content is valid and provides meaningful information to users.''\<rparr>
   \<and> validateCardProps (Str ''C'') (Str ''d'') =
     Inr \<lparr>isValid = True,
          message = ''Card content is valid and provides meaningful information to users.''\<rparr>
   \<and> spec_kind (Str ''A'') (Str ''b'') = spec_kind (Str ''C'') (Str ''d'')
   \<and> MissingTitle \<noteq> Valid
   \<and> spec_message MissingTitle 0 0 \<noteq> spec_message Valid 0 0"
proof -
  have a: "validateCardProps (Str ''A'') (Str ''b'') =
     Inr \<lparr>isValid = True,
          message = ''Card content is valid and provides meaningful information to users.''\<rparr>"
    by code_simp
  have b: "validateCardProps (Str ''C'') (Str ''d'') =
     Inr \<lparr>isValid = True,
          message = ''Card content is valid and provides meaningful information to users.''\<rparr>"
    by code_simp
  have n: "MissingTitle \<noteq> Valid"
    by simp
  from message_determines_kind [where t = "Str ''A''" and d = "Str ''b''"
      and t' = "Str ''C''" and d' = "Str ''d''" and k = MissingTitle and k' = Valid
      and a = 0 and b = 0 and a' = 0 and b' = 0, of _ _] a b n
  show ?thesis by auto
qed

section \<open>The component against the specification\<close>

subsection \<open>Facts about the components and the render passes\<close>

lemma Card_shown:
  "\<not> isValid (spec_validate (title p) (description p)) \<Longrightarrow> orDefault False (showValidation p) \<Longrightarrow>
   Card cn cv p =
     Inr \<lparr>returned =
              \<lparr>role = ''alert'', ariaLive = Some ''polite'',
               ariaLabelledby = None, ariaDescribedby = None,
               classes = cn [cv \<lparr>variant = Some Status, size' = size' p,
                                          status = Some Error, className = className p\<rparr>,
                             ''animate-in slide-in-from-left-1 duration-200''],
               heading = Str ''Invalid Card Configuration'',
               body = Str (message (spec_validate (title p) (description p)))\<rparr>,
            depValidation = spec_validate (title p) (description p),
            depObserver = onValidationChange p\<rparr>"
  by (simp add: Card_def validateCardProps_spec bindE_def)

lemma Card_normal:
  "isValid (spec_validate (title p) (description p)) \<or> \<not> orDefault False (showValidation p) \<Longrightarrow>
   Card cn cv p =
       Inr \<lparr>returned =
              \<lparr>role = ''article'', ariaLive = None,
               ariaLabelledby = Some ''card-title'', ariaDescribedby = Some ''card-description'',
               classes = cn [cv \<lparr>variant = variant p, size' = size' p,
                                          status = status p, className = className p\<rparr>],
               heading = title p,
               body = description p\<rparr>,
            depValidation = spec_validate (title p) (description p),
            depObserver = onValidationChange p\<rparr>"
  by (auto simp add: Card_def validateCardProps_spec bindE_def)

lemma Card_verdict:
  "Card cn cv p = Inr r \<Longrightarrow> depValidation r = spec_validate (title p) (description p)"
  by (auto simp: Card_def validateCardProps_spec bindE_def split: if_splits)

lemma Card_observer:
  "Card cn cv p = Inr r \<Longrightarrow> depObserver r = onValidationChange p"
  by (auto simp: Card_def validateCardProps_spec bindE_def split: if_splits)

lemma Card_total: "\<exists>r. Card cn cv p = Inr r"
  by (auto simp: Card_def validateCardProps_spec bindE_def)

lemma Card_mode:
  "Card cn cv p = Inr r \<Longrightarrow>
     renderMode (returned r) = ValidationError \<longleftrightarrow>
       \<not> isValid (depValidation r) \<and> orDefault False (showValidation p)"
  by (auto simp: Card_def validateCardProps_spec bindE_def renderMode_def split: if_splits)

lemma CardJsx_total: "\<exists>r. CardJsx q = Inr r"
  by (auto simp: CardJsx_def Let_def validateCardProps_spec bindE_def)

lemma CardJsx_mode:
  "CardJsx q = Inr r \<Longrightarrow>
     renderMode (returned r) = ValidationError \<longleftrightarrow>
       \<not> isValid (spec_validate (title q) (description q)) \<and> orDefault False (showValidation q)"
  by (auto simp: CardJsx_def Let_def validateCardProps_spec bindE_def renderMode_def
      split: if_splits)

lemma empty_title_invalid: "\<not> isValid (spec_validate (Str []) d)"
  by (simp add: spec_validate_def spec_verdict_def spec_kind_def)

lemma empty_title_message: "message (spec_validate (Str []) d) = ''Card title is required and cannot be empty. Please provide a meaningful title to describe your content.''"
  by (simp add: spec_validate_def spec_verdict_def spec_kind_def)

lemma validate_Valid_title:
  "validateCardProps (Str ''Valid title'') (Str ''Valid description'') =
     Inr \<lparr>isValid = True,
          message = ''Card content is valid and provides meaningful information to users.''\<rparr>"
  by code_simp

lemma settled_mounting: "settled (mounting n)"
  by (simp add: settled_def mounting_def)

lemma renderPass_settled: "renderPass c inst p = Inr (inst', es) \<Longrightarrow> settled inst'"
  by (auto simp: renderPass_def bindE_def commit_def Let_def settled_def split: sum.splits)

lemma renderAll_settled:
  "settled inst \<Longrightarrow> renderAll c inst ps = Inr (inst', es) \<Longrightarrow> settled inst'"
proof (induction ps arbitrary: inst es)
  case Nil
  then show ?case by simp
next
  case (Cons p ps)
  from Cons.prems(2) obtain i1 e1 e2 where
    1: "renderPass c inst p = Inr (i1, e1)" and 2: "renderAll c i1 ps = Inr (inst', e2)"
    by (auto simp: bindE_def split: sum.splits)
  from 1 have "settled i1" by (rule renderPass_settled)
  from Cons.IH [OF this 2] show ?case .
qed

lemma settled_changed: "settled inst \<Longrightarrow> depsChanged (lastDeps inst) (nextAddr inst, ob)"
  by (auto simp: settled_def depsChanged_def split: option.splits)

lemma renderPass_settled_events:
  "settled inst \<Longrightarrow> c p = Inr r \<Longrightarrow>
     renderPass c inst p =
       Inr (\<lparr>nextAddr = Suc (nextAddr inst), lastDeps = Some (nextAddr inst, depObserver r)\<rparr>,
            Rendered (returned r) # effectBody (depObserver r) (depValidation r))"
  by (simp add: renderPass_def bindE_def commit_def Let_def settled_changed)

subsection \<open>Render mode\<close>

lemma RenderMode_Normal_iff: "m = Normal \<longleftrightarrow> m \<noteq> ValidationError"
  by (cases m) simp_all

text \<open>
  C2. For every properties of \<open>Card\<close>, the element returned is the validation-error
  view if and only if the verdict is invalid and \<open>showValidation\<close> is true. In every
  other case, an invalid verdict with \<open>showValidation\<close> false or unset included, it is
  the normal view: the ordinary article card with the caller's title, description and
  style keys.
\<close>

theorem render_mode_iff:
  "\<exists>r. Card cn cv p = Inr r
     \<and> validateCardProps (title p) (description p) = Inr (depValidation r)
     \<and> (renderMode (returned r) = ValidationError \<longleftrightarrow>
          \<not> isValid (depValidation r) \<and> orDefault False (showValidation p))
     \<and> (renderMode (returned r) = Normal \<longleftrightarrow>
          isValid (depValidation r) \<or> \<not> orDefault False (showValidation p))
     \<and> (renderMode (returned r) = Normal \<longrightarrow>
          returned r =
            \<lparr>role = ''article'', ariaLive = None,
             ariaLabelledby = Some ''card-title'', ariaDescribedby = Some ''card-description'',
             classes = cn [cv \<lparr>variant = variant p, size' = size' p,
                               status = status p, className = className p\<rparr>],
             heading = title p,
             body = description p\<rparr>)"
proof -
  obtain r where r: "Card cn cv p = Inr r"
    using Card_total by blast
  have v: "depValidation r = spec_validate (title p) (description p)"
    using r by (rule Card_verdict)
  have m: "renderMode (returned r) = ValidationError \<longleftrightarrow>
       \<not> isValid (depValidation r) \<and> orDefault False (showValidation p)"
    using r by (rule Card_mode)
  have n: "returned r =
            \<lparr>role = ''article'', ariaLive = None,
             ariaLabelledby = Some ''card-title'', ariaDescribedby = Some ''card-description'',
             classes = cn [cv \<lparr>variant = variant p, size' = size' p,
                               status = status p, className = className p\<rparr>],
             heading = title p,
             body = description p\<rparr>"
    if "renderMode (returned r) = Normal"
  proof -
    from that m v
    have "isValid (spec_validate (title p) (description p)) \<or> \<not> orDefault False (showValidation p)"
      by (auto simp: RenderMode_Normal_iff)
    from Card_normal [OF this, of cn cv] r show ?thesis
      by simp
  qed
  from r v m n show ?thesis
    by (auto simp: validateCardProps_spec RenderMode_Normal_iff)
qed

theorem render_mode_iff_witness:
  "\<exists>r. Card cnJsx (\<lambda>a. ''card'')
          \<lparr>variant = None, size' = None, status = None, className = None,
           title = Str [], description = Str ''Valid description'',
           showValidation = Some False, onValidationChange = None\<rparr> = Inr r
     \<and> \<not> isValid (depValidation r)
     \<and> renderMode (returned r) = Normal
     \<and> role (returned r) = ''article''
     \<and> heading (returned r) = Str []
     \<and> body (returned r) = Str ''Valid description''"
proof -
  let ?p = "\<lparr>variant = None, size' = None, status = None, className = None,
           title = Str [], description = Str ''Valid description'',
           showValidation = Some False, onValidationChange = None\<rparr>"
  from render_mode_iff [of cnJsx "\<lambda>a. ''card''" ?p]
  obtain r where r: "Card cnJsx (\<lambda>a. ''card'') ?p = Inr r"
    and v: "validateCardProps (title ?p) (description ?p) = Inr (depValidation r)"
    and n: "renderMode (returned r) = Normal \<longleftrightarrow>
          isValid (depValidation r) \<or> \<not> orDefault False (showValidation ?p)"
    and e: "renderMode (returned r) = Normal \<longrightarrow>
          returned r =
            \<lparr>role = ''article'', ariaLive = None,
             ariaLabelledby = Some ''card-title'', ariaDescribedby = Some ''card-description'',
             classes = cnJsx [(\<lambda>a. ''card'') \<lparr>variant = variant ?p, size' = size' ?p,
                               status = status ?p, className = className ?p\<rparr>],
             heading = title ?p,
             body = description ?p\<rparr>"
    by blast
  have dv: "depValidation r = spec_validate (Str []) (Str ''Valid description'')"
    using v by (simp add: validateCardProps_spec)
  have i: "\<not> isValid (depValidation r)"
    unfolding dv by (simp add: spec_validate_def spec_verdict_def spec_kind_def)
  have "\<not> orDefault False (showValidation ?p)"
    by (simp add: orDefault_def)
  with n have m: "renderMode (returned r) = Normal"
    by blast
  with e have "returned r =
            \<lparr>role = ''article'', ariaLive = None,
             ariaLabelledby = Some ''card-title'', ariaDescribedby = Some ''card-description'',
             classes = cnJsx [(\<lambda>a. ''card'') \<lparr>variant = variant ?p, size' = size' ?p,
                               status = status ?p, className = className ?p\<rparr>],
             heading = title ?p,
             body = description ?p\<rparr>"
    by blast
  then have "role (returned r) = ''article'' \<and> heading (returned r) = Str []
      \<and> body (returned r) = Str ''Valid description''"
    by simp
  with r i m show ?thesis
    by blast
qed

subsection \<open>The error view\<close>

lemma Card_mode_shown:
  "Card cn cv p = Inr r \<Longrightarrow> renderMode (returned r) = ValidationError \<Longrightarrow>
     \<not> isValid (spec_validate (title p) (description p)) \<and> orDefault False (showValidation p)"
  using Card_mode [of cn cv p r] Card_verdict [of cn cv p r] by simp

text \<open>
  C5. Whenever the validation-error view is returned, the style lookup is made with the
  variant \<open>status\<close> and the status \<open>error\<close>, whatever variant and status the caller
  asked for (changing them changes nothing in the result), and the body of the view is
  exactly the message of the verdict.
\<close>

theorem error_view_override:
  "Card cn cv p = Inr r \<and> renderMode (returned r) = ValidationError \<longrightarrow>
     validateCardProps (title p) (description p) = Inr (depValidation r)
     \<and> body (returned r) = Str (message (depValidation r))
     \<and> classes (returned r) =
         cn [cv \<lparr>variant = Some Status, size' = size' p,
                 status = Some Error, className = className p\<rparr>,
             ''animate-in slide-in-from-left-1 duration-200'']
     \<and> Card cn cv (p\<lparr>variant := v, status := s\<rparr>) = Inr r"
proof
  assume a: "Card cn cv p = Inr r \<and> renderMode (returned r) = ValidationError"
  then have c: "\<not> isValid (spec_validate (title p) (description p))"
      "orDefault False (showValidation p)"
    using Card_mode_shown by blast+
  from Card_shown [OF c, of cn cv] a
  have r: "r = \<lparr>returned =
              \<lparr>role = ''alert'', ariaLive = Some ''polite'',
               ariaLabelledby = None, ariaDescribedby = None,
               classes = cn [cv \<lparr>variant = Some Status, size' = size' p,
                                          status = Some Error, className = className p\<rparr>,
                             ''animate-in slide-in-from-left-1 duration-200''],
               heading = Str ''Invalid Card Configuration'',
               body = Str (message (spec_validate (title p) (description p)))\<rparr>,
            depValidation = spec_validate (title p) (description p),
            depObserver = onValidationChange p\<rparr>"
    by simp
  have "Card cn cv (p\<lparr>variant := v, status := s\<rparr>) = Inr r"
    unfolding r using c by (simp add: Card_shown)
  then show "validateCardProps (title p) (description p) = Inr (depValidation r)
     \<and> body (returned r) = Str (message (depValidation r))
     \<and> classes (returned r) =
         cn [cv \<lparr>variant = Some Status, size' = size' p,
                 status = Some Error, className = className p\<rparr>,
             ''animate-in slide-in-from-left-1 duration-200'']
     \<and> Card cn cv (p\<lparr>variant := v, status := s\<rparr>) = Inr r"
    by (simp add: r validateCardProps_spec)
qed

theorem error_view_override_witness:
  "\<exists>r. Card cnJsx (\<lambda>a. orDefault [] (className a)) \<lparr>variant = Some Featured, size' = Some Lg, status = Some Success,
          className = Some ''custom-class'', title = Str [],
          description = Str ''Valid description'', showValidation = Some True,
          onValidationChange = None\<rparr> = Inr r
     \<and> renderMode (returned r) = ValidationError
     \<and> body (returned r) = Str ''Card title is required and cannot be empty. Please provide a meaningful title to describe your content.''
     \<and> classes (returned r) = ''custom-class animate-in slide-in-from-left-1 duration-200''
     \<and> Card cnJsx (\<lambda>a. orDefault [] (className a))
          (\<lparr>variant = Some Featured, size' = Some Lg, status = Some Success,
          className = Some ''custom-class'', title = Str [],
          description = Str ''Valid description'', showValidation = Some True,
          onValidationChange = None\<rparr>\<lparr>variant := Some Compact, status := Some Info\<rparr>) = Inr r"
proof -
  let ?cv = "\<lambda>a::ClassProps. orDefault [] (className a)"
  let ?p = "\<lparr>variant = Some Featured, size' = Some Lg, status = Some Success,
          className = Some ''custom-class'', title = Str [],
          description = Str ''Valid description'', showValidation = Some True,
          onValidationChange = None\<rparr>"
  obtain r where r: "Card cnJsx ?cv ?p = Inr r"
    using Card_total by blast
  have dv: "depValidation r = spec_validate (Str []) (Str ''Valid description'')"
    using Card_verdict [OF r] by simp
  have m: "renderMode (returned r) = ValidationError"
    using Card_mode [OF r] by (simp add: dv empty_title_invalid orDefault_def)
  from error_view_override [where cn = cnJsx and cv = ?cv and p = ?p and r = r
      and v = "Some Compact" and s = "Some Info"] r m
  have "body (returned r) = Str (message (depValidation r))
     \<and> classes (returned r) =
         cnJsx [?cv \<lparr>variant = Some Status, size' = size' ?p,
                 status = Some Error, className = className ?p\<rparr>,
             ''animate-in slide-in-from-left-1 duration-200'']
     \<and> Card cnJsx ?cv (?p\<lparr>variant := Some Compact, status := Some Info\<rparr>) = Inr r"
    by blast
  then have "body (returned r) = Str ''Card title is required and cannot be empty. Please provide a meaningful title to describe your content.''
     \<and> classes (returned r) = ''custom-class animate-in slide-in-from-left-1 duration-200''
     \<and> Card cnJsx ?cv (?p\<lparr>variant := Some Compact, status := Some Info\<rparr>) = Inr r"
    by (simp add: dv empty_title_message orDefault_def cnJsx_def)
  with r m show ?thesis
    by blast
qed

subsection \<open>What the error view keeps\<close>

lemma CardJsx_shown:
  "CardJsx q = Inr r \<Longrightarrow> renderMode (returned r) = ValidationError \<Longrightarrow>
     \<not> isValid (spec_validate (title q) (description q)) \<and> orDefault False (showValidation q)
     \<and> styleAttr (returned r) =
         variantStyles Status ++ sizeStyles (orDefault SizeDefault (size' q))
           ++ statusStyles Error ++ orDefault Map.empty (style q)
     \<and> classes (returned r) = cnJsx [''card card-error'', orDefault [] (className q)]"
  by (auto simp: CardJsx_def Let_def validateCardProps_spec bindE_def renderMode_def
      split: if_splits)

lemma CardJsx_shown_eq:
  "\<not> isValid (spec_validate (title q) (description q)) \<Longrightarrow> orDefault False (showValidation q) \<Longrightarrow>
   CardJsx (q\<lparr>variant := v, status := s\<rparr>) = CardJsx q"
  by (simp add: CardJsx_def Let_def validateCardProps_spec bindE_def)

text \<open>
  C10. In the validation-error view only the variant and the status are replaced. In
  \<open>Card.tsx\<close> the style lookup receives the caller's variant properties and class name
  with just these two keys set to \<open>status\<close> and \<open>error\<close>, so the size and the class
  name arrive unchanged. In the demo application's card the inline style is that of the
  status variant, then that of the caller's size, then that of the error status, then the
  caller's own style, and the class list ends with the caller's class name.
\<close>

theorem error_view_keeps_size_and_class:
  "(Card cn cv p = Inr r \<and> renderMode (returned r) = ValidationError \<longrightarrow>
      classes (returned r) =
        cn [cv ((ClassProps.truncate p)\<lparr>variant := Some Status, status := Some Error\<rparr>),
            ''animate-in slide-in-from-left-1 duration-200''])
   \<and> (CardJsx q = Inr r' \<and> renderMode (returned r') = ValidationError \<longrightarrow>
        styleAttr (returned r') =
          variantStyles Status ++ sizeStyles (orDefault SizeDefault (size' q))
            ++ statusStyles Error ++ orDefault Map.empty (style q)
        \<and> classes (returned r') = cnJsx [''card card-error'', orDefault [] (className q)]
        \<and> CardJsx (q\<lparr>variant := v, status := s\<rparr>) = Inr r')"
proof -
  have 1: "classes (returned r) =
        cn [cv ((ClassProps.truncate p)\<lparr>variant := Some Status, status := Some Error\<rparr>),
            ''animate-in slide-in-from-left-1 duration-200'']"
    if a: "Card cn cv p = Inr r" "renderMode (returned r) = ValidationError"
  proof -
    from a have c: "\<not> isValid (spec_validate (title p) (description p))"
      "orDefault False (showValidation p)"
      using Card_mode_shown by blast+
    from Card_shown [OF c, of cn cv] a(1) show ?thesis
      by (auto simp: ClassProps.truncate_def)
  qed
  have 2: "styleAttr (returned r') =
          variantStyles Status ++ sizeStyles (orDefault SizeDefault (size' q))
            ++ statusStyles Error ++ orDefault Map.empty (style q)
        \<and> classes (returned r') = cnJsx [''card card-error'', orDefault [] (className q)]
        \<and> CardJsx (q\<lparr>variant := v, status := s\<rparr>) = Inr r'"
    if b: "CardJsx q = Inr r'" "renderMode (returned r') = ValidationError"
    using CardJsx_shown [OF b] CardJsx_shown_eq [where q = q and v = v and s = s] b(1) by simp
  from 1 2 show ?thesis by blast
qed

theorem error_view_keeps_size_and_class_witness:
  "(\<exists>r. Card cnJsx (\<lambda>a. if size' a = Some Lg then ''p-8 space-y-6'' else ''p-6 space-y-4'')
          \<lparr>variant = Some Featured, size' = Some Lg, status = Some Success,
          className = Some ''custom-class'', title = Str [],
          description = Str ''Valid description'', showValidation = Some True,
          onValidationChange = None\<rparr> = Inr r
      \<and> renderMode (returned r) = ValidationError
      \<and> classes (returned r) = ''p-8 space-y-6 animate-in slide-in-from-left-1 duration-200'')
   \<and> (\<exists>r'. CardJsx (\<lparr>variant = Some Featured, size' = Some Lg, status = Some Success,
          className = Some ''custom-class'', title = Str [],
          description = Str ''Valid description'', showValidation = Some True,
          onValidationChange = None, style = None, children = None\<rparr> :: nat JsxProps) = Inr r'
      \<and> renderMode (returned r') = ValidationError
      \<and> styleAttr (returned r') ''padding'' = Some (CssStr ''2rem'')
      \<and> styleAttr (returned r') ''borderLeftColor'' = Some (CssStr ''#ef4444'')
      \<and> classes (returned r') = ''card card-error custom-class'')"
proof -
  let ?cv = "\<lambda>a::ClassProps. if size' a = Some Lg then ''p-8 space-y-6'' else ''p-6 space-y-4''"
  let ?p = "\<lparr>variant = Some Featured, size' = Some Lg, status = Some Success,
          className = Some ''custom-class'', title = Str [],
          description = Str ''Valid description'', showValidation = Some True,
          onValidationChange = None\<rparr>"
  let ?q = "\<lparr>variant = Some Featured, size' = Some Lg, status = Some Success,
          className = Some ''custom-class'', title = Str [],
          description = Str ''Valid description'', showValidation = Some True,
          onValidationChange = None, style = None, children = None\<rparr> :: nat JsxProps"
  obtain r where r: "Card cnJsx ?cv ?p = Inr r"
    using Card_total by blast
  have dv: "depValidation r = spec_validate (Str []) (Str ''Valid description'')"
    using Card_verdict [OF r] by simp
  have m: "renderMode (returned r) = ValidationError"
    using Card_mode [OF r] by (simp add: dv empty_title_invalid orDefault_def)
  obtain r' where r': "CardJsx ?q = Inr r'"
    using CardJsx_total by blast
  have m': "renderMode (returned r') = ValidationError"
    using CardJsx_mode [OF r'] by (simp add: empty_title_invalid orDefault_def)
  from error_view_keeps_size_and_class [where cn = cnJsx and cv = ?cv and p = ?p and r = r
      and q = ?q and r' = r'] r m r' m'
  have c: "classes (returned r) =
        cnJsx [?cv ((ClassProps.truncate ?p)\<lparr>variant := Some Status, status := Some Error\<rparr>),
            ''animate-in slide-in-from-left-1 duration-200'']"
    and j: "styleAttr (returned r') =
          variantStyles Status ++ sizeStyles (orDefault SizeDefault (size' ?q))
            ++ statusStyles Error ++ orDefault Map.empty (style ?q)"
      "classes (returned r') = cnJsx [''card card-error'', orDefault [] (className ?q)]"
    by blast+
  have 1: "classes (returned r) = ''p-8 space-y-6 animate-in slide-in-from-left-1 duration-200''"
    unfolding c by (simp add: ClassProps.truncate_def cnJsx_def)
  have 2: "styleAttr (returned r') ''padding'' = Some (CssStr ''2rem'')"
    unfolding j by (simp add: orDefault_def map_add_def)
  have 3: "styleAttr (returned r') ''borderLeftColor'' = Some (CssStr ''#ef4444'')"
    unfolding j by (simp add: orDefault_def map_add_def)
  have 4: "classes (returned r') = ''card card-error custom-class''"
    unfolding j by (simp add: orDefault_def cnJsx_def)
  from r m 1 r' m' 2 3 4 show ?thesis
    by blast
qed

subsection \<open>Change notification\<close>

text \<open>
  C8. In every render pass of a live card, after any earlier passes since mounting, the
  observer, if one is registered, is called exactly once, with the verdict of the current
  title and description, and the call comes after the element of the pass has been
  returned; without an observer nothing is called. This holds whether or not the verdict
  differs from the one observed before, so in particular whenever it has changed by value.
  Mounting a card with title \<open>Valid title\<close>, description \<open>Valid description\<close> and an
  observer gives exactly one call, with the valid verdict and the success message.
\<close>

theorem notification_contract:
  "(renderAll (Card cn cv) (mounting n) ps = Inr (inst, es) \<longrightarrow>
      (\<exists>r inst'. Card cn cv p = Inr r
         \<and> validateCardProps (title p) (description p) = Inr (depValidation r)
         \<and> renderPass (Card cn cv) inst p =
             Inr (inst', Rendered (returned r) #
                    (case onValidationChange p of None \<Rightarrow> []
                     | Some f \<Rightarrow> [Notified f (depValidation r)]))))
   \<and> (\<exists>el inst'.
        renderPass (Card cn cv) (mounting n)
          \<lparr>variant = va, size' = sz, status = st, className = cl,
           title = Str ''Valid title'', description = Str ''Valid description'',
           showValidation = sv, onValidationChange = Some g\<rparr> =
        Inr (inst', [Rendered el,
                     Notified g \<lparr>isValid = True,
                       message = ''Card content is valid and provides meaningful information to users.''\<rparr>]))"
proof -
  have any: "\<exists>r inst'. Card cn cv p = Inr r
         \<and> validateCardProps (title p) (description p) = Inr (depValidation r)
         \<and> renderPass (Card cn cv) inst p =
             Inr (inst', Rendered (returned r) #
                    (case onValidationChange p of None \<Rightarrow> []
                     | Some f \<Rightarrow> [Notified f (depValidation r)]))"
    if s: "settled inst" for inst :: liveCard and p
  proof -
    obtain r where r: "Card cn cv p = Inr r"
      using Card_total by blast
    have v: "validateCardProps (title p) (description p) = Inr (depValidation r)"
      using r by (simp add: Card_verdict validateCardProps_spec)
    have "depObserver r = onValidationChange p"
      using r by (rule Card_observer)
    with renderPass_settled_events [where c = "Card cn cv", OF s r]
    have "renderPass (Card cn cv) inst p =
       Inr (\<lparr>nextAddr = Suc (nextAddr inst), lastDeps = Some (nextAddr inst, depObserver r)\<rparr>,
            Rendered (returned r) #
              (case onValidationChange p of None \<Rightarrow> []
               | Some f \<Rightarrow> [Notified f (depValidation r)]))"
      by (simp add: effectBody_def)
    with r v show ?thesis
      by blast
  qed
  have 1: "renderAll (Card cn cv) (mounting n) ps = Inr (inst, es) \<longrightarrow>
      (\<exists>r inst'. Card cn cv p = Inr r
         \<and> validateCardProps (title p) (description p) = Inr (depValidation r)
         \<and> renderPass (Card cn cv) inst p =
             Inr (inst', Rendered (returned r) #
                    (case onValidationChange p of None \<Rightarrow> []
                     | Some f \<Rightarrow> [Notified f (depValidation r)])))"
    using any renderAll_settled [OF settled_mounting] by blast
  let ?p = "\<lparr>variant = va, size' = sz, status = st, className = cl,
           title = Str ''Valid title'', description = Str ''Valid description'',
           showValidation = sv, onValidationChange = Some g\<rparr>"
  have ok: "validateCardProps (Str ''Valid title'') (Str ''Valid description'') =
     Inr \<lparr>isValid = True,
          message = ''Card content is valid and provides meaningful information to users.''\<rparr>"
    by code_simp
  from any [OF settled_mounting, of ?p n] ok
  have 2: "\<exists>el inst'.
        renderPass (Card cn cv) (mounting n) ?p =
        Inr (inst', [Rendered el,
                     Notified g \<lparr>isValid = True,
                       message = ''Card content is valid and provides meaningful information to users.''\<rparr>])"
    by auto
  from 1 2 show ?thesis by blast
qed

theorem notification_contract_witness:
  "(\<exists>inst es.
      renderAll (Card cnJsx (\<lambda>a. ''card'')) (mounting 0) [\<lparr>variant = None, size' = None, status = None,
          className = None, title = Str [],
          description = Str ''Valid description'', showValidation = Some True,
          onValidationChange = Some 7\<rparr>] = Inr (inst, es)
      \<and> es = [Rendered
              \<lparr>role = ''alert'', ariaLive = Some ''polite'', ariaLabelledby = None,
               ariaDescribedby = None,
               classes = ''card animate-in slide-in-from-left-1 duration-200'',
               heading = Str ''Invalid Card Configuration'',
               body = Str ''Card title is required and cannot be empty. Please provide a meaningful title to describe your content.''\<rparr>,
             Notified 7 \<lparr>isValid = False,
               message = ''Card title is required and cannot be empty. Please provide a meaningful title to describe your content.''\<rparr>]
      \<and> (\<exists>r inst'.
            Card cnJsx (\<lambda>a. ''card'') \<lparr>variant = Some Featured, size' = Some Lg, status = Some Success,
          className = Some ''custom-class'', title = Str ''Valid title'',
          description = Str ''Valid description'', showValidation = Some True,
          onValidationChange = Some 7\<rparr> = Inr r
            \<and> renderPass (Card cnJsx (\<lambda>a. ''card'')) inst \<lparr>variant = Some Featured, size' = Some Lg, status = Some Success,
          className = Some ''custom-class'', title = Str ''Valid title'',
          description = Str ''Valid description'', showValidation = Some True,
          onValidationChange = Some 7\<rparr> =
                Inr (inst', [Rendered (returned r),
                             Notified 7 \<lparr>isValid = True,
                               message = ''Card content is valid and provides meaningful information to users.''\<rparr>])))"
proof -
  let ?C = "Card cnJsx (\<lambda>a. ''card'')"
  let ?e = "\<lparr>variant = None, size' = None, status = None,
          className = None, title = Str [],
          description = Str ''Valid description'', showValidation = Some True,
          onValidationChange = Some 7\<rparr>"
  let ?a = "\<lparr>variant = Some Featured, size' = Some Lg, status = Some Success,
          className = Some ''custom-class'', title = Str ''Valid title'',
          description = Str ''Valid description'', showValidation = Some True,
          onValidationChange = Some 7\<rparr>"
  let ?es = "[Rendered
              \<lparr>role = ''alert'', ariaLive = Some ''polite'', ariaLabelledby = None,
               ariaDescribedby = None,
               classes = ''card animate-in slide-in-from-left-1 duration-200'',
               heading = Str ''Invalid Card Configuration'',
               body = Str ''Card title is required and cannot be empty. Please provide a meaningful title to describe your content.''\<rparr>,
             Notified 7 \<lparr>isValid = False,
               message = ''Card title is required and cannot be empty. Please provide a meaningful title to describe your content.''\<rparr>]"
  have h: "renderAll ?C (mounting 0) [?e] = Inr (\<lparr>nextAddr = 1, lastDeps = Some (0, Some 7)\<rparr>, ?es)"
    by code_simp
  from notification_contract [where cn = cnJsx and cv = "\<lambda>a. ''card''" and n = 0
      and ps = "[?e]" and inst = "\<lparr>nextAddr = 1, lastDeps = Some (0, Some 7)\<rparr>" and es = ?es
      and p = ?a] h
  obtain r inst' where r: "?C ?a = Inr r"
    and v: "validateCardProps (title ?a) (description ?a) = Inr (depValidation r)"
    and e: "renderPass ?C \<lparr>nextAddr = 1, lastDeps = Some (0, Some 7)\<rparr> ?a =
             Inr (inst', Rendered (returned r) #
                    (case onValidationChange ?a of None \<Rightarrow> []
                     | Some f \<Rightarrow> [Notified f (depValidation r)]))"
    by blast
  from v have dv: "depValidation r = \<lparr>isValid = True,
                               message = ''Card content is valid and provides meaningful information to users.''\<rparr>"
    by (simp add: validate_Valid_title)
  from e have "renderPass ?C \<lparr>nextAddr = 1, lastDeps = Some (0, Some 7)\<rparr> ?a =
                Inr (inst', [Rendered (returned r),
                             Notified 7 \<lparr>isValid = True,
                               message = ''Card content is valid and provides meaningful information to users.''\<rparr>])"
    by (simp add: dv)
  with h r show ?thesis
    by blast
qed

end
